theory Spec2Isabelle
  imports Main "HOL-Library.AList"
begin

section \<open>Values handled by the merge engine\<close>

text \<open>
  \<^verbatim>\<open>src/core/merger.ts\<close> works on values of TypeScript type \<^verbatim>\<open>any\<close>: what
  \<^verbatim>\<open>JSON.parse\<close> returns, and \<^verbatim>\<open>undefined\<close> for a property that is read but absent.
  A container (array or plain object) is its kind together with its own enumerable
  properties in the order \<^verbatim>\<open>Object.keys\<close> lists them; the array \<^verbatim>\<open>[x, y]\<close> has the
  properties \<^verbatim>\<open>"0"\<close> and \<^verbatim>\<open>"1"\<close>. This representation also holds what the merge can
  build and JSON cannot: an array carrying a non-index property.

  Numbers are integers here. The operator \<^verbatim>\<open>in\<close> and property reads are modelled on
  own properties: keys that name a member inherited from \<^verbatim>\<open>Object.prototype\<close> or
  \<^verbatim>\<open>Array.prototype\<close> (such as \<^verbatim>\<open>toString\<close> or \<^verbatim>\<open>length\<close>) are outside the model.
  A new property is appended after the existing ones (insertion order); JavaScript lists
  the index-like keys of a plain object first, which the model does not do, so the order
  of a merged mapping's keys carries no meaning here.
\<close>

datatype ConflictStrategy = Ask | Local | Remote | Newest

datatype container_kind = ArrayKind | ObjectKind

datatype jsvalue =
    JUndefined
  | JNull
  | JBool bool
  | JNum int
  | JStr string
  | JContainer container_kind "(string \<times> jsvalue) list"

text \<open>\<^verbatim>\<open>isPrimitive(value)\<close>: \<^verbatim>\<open>value === null || typeof value !== 'object'\<close>.\<close>

fun isPrimitive :: "jsvalue \<Rightarrow> bool" where
  "isPrimitive (JContainer k ps) = False"
| "isPrimitive v = True"

text \<open>\<^verbatim>\<open>Array.isArray\<close>.\<close>

fun isArray :: "jsvalue \<Rightarrow> bool" where
  "isArray (JContainer ArrayKind ps) = True"
| "isArray v = False"

fun properties :: "jsvalue \<Rightarrow> (string \<times> jsvalue) list" where
  "properties (JContainer k ps) = ps"
| "properties v = []"

text \<open>\<^verbatim>\<open>Object.keys(v)\<close> for a container \<open>v\<close>.\<close>

definition object_keys :: "jsvalue \<Rightarrow> string list" where
  "object_keys v = map fst (properties v)"

text \<open>\<^verbatim>\<open>key in v\<close> for a container \<open>v\<close>.\<close>

definition has_key :: "string \<Rightarrow> jsvalue \<Rightarrow> bool" where
  "has_key key v = (key \<in> set (object_keys v))"

text \<open>\<^verbatim>\<open>v[key]\<close>: the property's value, \<^verbatim>\<open>undefined\<close> when there is none.\<close>

definition get_prop :: "jsvalue \<Rightarrow> string \<Rightarrow> jsvalue" where
  "get_prop v key = (case map_of (properties v) key of None \<Rightarrow> JUndefined | Some x \<Rightarrow> x)"

text \<open>
  \<^verbatim>\<open>new Set([...])\<close> followed by iteration: the elements in order of first occurrence.
  The first argument is the set built so far.
\<close>

fun new_set :: "string list \<Rightarrow> string list \<Rightarrow> string list" where
  "new_set acc [] = acc"
| "new_set acc (k # ks) = new_set (if k \<in> set acc then acc else acc @ [k]) ks"

text \<open>\<^verbatim>\<open>xs.join(sep)\<close>.\<close>

fun join_with :: "string \<Rightarrow> string list \<Rightarrow> string" where
  "join_with sep [] = []"
| "join_with sep [x] = x"
| "join_with sep (x # y # ys) = x @ sep @ join_with sep (y # ys)"

section \<open>The two-way merge (\<^verbatim>\<open>Merger\<close>)\<close>

text \<open>\<^verbatim>\<open>Merger.resolveConflict\<close>: only \<^verbatim>\<open>'local'\<close> keeps the local value.\<close>

fun resolveConflict :: "ConflictStrategy \<Rightarrow> jsvalue \<Rightarrow> jsvalue \<Rightarrow> jsvalue" where
  "resolveConflict Local local remote = local"
| "resolveConflict Remote local remote = remote"
| "resolveConflict Newest local remote = remote"
| "resolveConflict Ask local remote = remote"

lemma size_get_prop:
  "has_key key v \<Longrightarrow> size (get_prop v key) < size v"
proof (cases v)
  case (JContainer k ps)
  assume "has_key key v"
  then have "map_of ps key \<noteq> None"
    by (simp add: has_key_def object_keys_def JContainer map_of_eq_None_iff)
  then obtain x where x: "map_of ps key = Some x" by blast
  then have "(key, x) \<in> set ps" by (rule map_of_SomeD)
  then have "size x < Suc (size_list (size_prod (\<lambda>_. 0) size) ps)"
    by (induction ps) auto
  with x show ?thesis by (simp add: JContainer get_prop_def)
qed (auto simp: has_key_def object_keys_def)

text \<open>
  \<^verbatim>\<open>Merger.deepMergeWithConflicts(local, remote, path, conflicts)\<close>. The source pushes
  onto the array \<^verbatim>\<open>conflicts\<close> it was handed; the model takes the array and returns it
  with what was pushed. \<open>merge_keys\<close> is the \<^verbatim>\<open>for (const key of allKeys)\<close> loop: its
  arguments are the keys still to visit, the \<^verbatim>\<open>result\<close> container's properties so
  far and the conflicts so far.
\<close>

function deepMergeWithConflicts ::
    "ConflictStrategy \<Rightarrow> jsvalue \<Rightarrow> jsvalue \<Rightarrow> string list \<Rightarrow> string list
       \<Rightarrow> jsvalue \<times> string list"
  and merge_keys ::
    "ConflictStrategy \<Rightarrow> jsvalue \<Rightarrow> jsvalue \<Rightarrow> string list \<Rightarrow> string list
       \<Rightarrow> (string \<times> jsvalue) list \<Rightarrow> string list
       \<Rightarrow> (string \<times> jsvalue) list \<times> string list"
where
  "deepMergeWithConflicts s local remote path conflicts =
     (if isPrimitive local \<and> isPrimitive remote then
        (if local \<noteq> remote
         then (resolveConflict s local remote, conflicts @ [join_with ''.'' path])
         else (local, conflicts))
      else if isPrimitive local \<or> isPrimitive remote then
        (resolveConflict s local remote, conflicts @ [join_with ''.'' path])
      else
        (case merge_keys s local remote path
                (new_set [] (object_keys local @ object_keys remote)) [] conflicts of
           (result, conflicts') \<Rightarrow>
             (JContainer (if isArray local then ArrayKind else ObjectKind) result, conflicts')))"
| "merge_keys s local remote path [] result conflicts = (result, conflicts)"
| "merge_keys s local remote path (key # keys) result conflicts =
     (if \<not> has_key key local then
        merge_keys s local remote path keys
          (AList.update key (get_prop remote key) result) conflicts
      else if \<not> has_key key remote then
        merge_keys s local remote path keys
          (AList.update key (get_prop local key) result) conflicts
      else
        (case deepMergeWithConflicts s (get_prop local key) (get_prop remote key)
                (path @ [key]) conflicts of
           (v, conflicts') \<Rightarrow>
             merge_keys s local remote path keys (AList.update key v result) conflicts'))"
  by pat_completeness auto
termination
  by (relation "measures [
        (\<lambda>x. case x of Inl (s, l, r, p, c) \<Rightarrow> size l
                     | Inr (s, l, r, p, ks, res, c) \<Rightarrow> size l),
        (\<lambda>x. case x of Inl a \<Rightarrow> 1 | Inr b \<Rightarrow> 0),
        (\<lambda>x. case x of Inl a \<Rightarrow> 0 | Inr (s, l, r, p, ks, res, c) \<Rightarrow> length ks)]")
     (auto simp: size_get_prop)

declare deepMergeWithConflicts.simps [simp del]

record MergeResult =
  result :: jsvalue
  conflicts :: "string list"
  merged :: bool

text \<open>\<^verbatim>\<open>Merger.mergeJson(local, remote)\<close> of a merger constructed with strategy \<open>s\<close>.\<close>

definition mergeJson :: "ConflictStrategy \<Rightarrow> jsvalue \<Rightarrow> jsvalue \<Rightarrow> MergeResult" where
  "mergeJson s local remote =
     (case deepMergeWithConflicts s local remote [] [] of
        (res, cs) \<Rightarrow> \<lparr>result = res, conflicts = cs, merged = (length cs = 0 \<or> s \<noteq> Ask)\<rparr>)"

section \<open>Facts about the two-way merge\<close>

lemma deepMerge_primitive:
  "isPrimitive l \<or> isPrimitive r \<Longrightarrow>
   deepMergeWithConflicts s l r path cs =
     (if l \<noteq> r then (resolveConflict s l r, cs @ [join_with ''.'' path]) else (l, cs))"
  by (subst deepMergeWithConflicts.simps) auto

lemma deepMerge_containers:
  "deepMergeWithConflicts s (JContainer k1 lp) (JContainer k2 rp) path cs =
     (case merge_keys s (JContainer k1 lp) (JContainer k2 rp) path
             (new_set [] (map fst lp @ map fst rp)) [] cs of
        (res, cs') \<Rightarrow> (JContainer k1 res, cs'))"
  by (subst deepMergeWithConflicts.simps) (cases k1; simp add: object_keys_def)

text \<open>
  C3, as the code has it. The flag \<open>merged\<close> of \<^verbatim>\<open>mergeJson\<close> is
  \<^verbatim>\<open>conflicts.length === 0 || this.conflictStrategy !== 'ask'\<close>: under the strategy
  \<^verbatim>\<open>'ask'\<close> it is true exactly when no conflicting key was recorded, and under
  every other strategy it is true whatever was recorded.
\<close>

theorem mergeJson_merged_flag:
  "merged (mergeJson s local remote) =
     (if s = Ask then conflicts (mergeJson s local remote) = [] else True)"
  by (simp add: mergeJson_def split: prod.splits)

text \<open>
  C3 as stated fails: with the strategy \<^verbatim>\<open>'remote'\<close>, local \<^verbatim>\<open>{a: 1}\<close> and remote
  \<^verbatim>\<open>{a: 2}\<close> give \<open>merged = true\<close> although the key \<^verbatim>\<open>a\<close> is recorded as conflicting.
\<close>

theorem mergeJson_merged_with_conflicts:
  "merged (mergeJson Remote (JContainer ObjectKind [(''a'', JNum 1)])
                            (JContainer ObjectKind [(''a'', JNum 2)])) = True
   \<and> conflicts (mergeJson Remote (JContainer ObjectKind [(''a'', JNum 1)])
                                 (JContainer ObjectKind [(''a'', JNum 2)])) = [''a'']"
  by (simp add: mergeJson_def deepMerge_containers deepMerge_primitive
        has_key_def object_keys_def get_prop_def)










section \<open>Which paths the two-way merge records\<close>















section \<open>\<^verbatim>\<open>JSON.stringify\<close> and the three-way merge\<close>

text \<open>A non-negative number in a template literal or in JSON text: its decimal digits.\<close>

fun decimal :: "nat \<Rightarrow> string" where
  "decimal n = (if n < 10 then [''0123456789'' ! n]
                else decimal (n div 10) @ [''0123456789'' ! (n mod 10)])"

declare decimal.simps [simp del]

text \<open>
  \<^verbatim>\<open>JSON.stringify(v)\<close> without indentation; \<open>None\<close> is the result \<^verbatim>\<open>undefined\<close>. A
  string is quoted with the escapes of the standard. An array gives its elements in
  property order, which is exact for an array as \<^verbatim>\<open>JSON.parse\<close> returns it (its
  properties are its indices, in order); \<^verbatim>\<open>undefined\<close> becomes \<^verbatim>\<open>null\<close> inside an
  array and drops the property of an object.
\<close>

fun escape_char :: "char \<Rightarrow> string" where
  "escape_char c =
     (if c = CHR 0x22 then [CHR 0x5C, CHR 0x22]
      else if c = CHR 0x5C then [CHR 0x5C, CHR 0x5C]
      else if c = CHR 0x08 then [CHR 0x5C, CHR ''b'']
      else if c = CHR 0x0C then [CHR 0x5C, CHR ''f'']
      else if c = CHR 0x0A then [CHR 0x5C, CHR ''n'']
      else if c = CHR 0x0D then [CHR 0x5C, CHR ''r'']
      else if c = CHR 0x09 then [CHR 0x5C, CHR ''t'']
      else if (of_char c :: nat) < 32 then
        [CHR 0x5C, CHR ''u'', CHR ''0'', CHR ''0'',
         ''0123456789abcdef'' ! (of_char c div 16), ''0123456789abcdef'' ! (of_char c mod 16)]
      else [c])"

definition quote_json :: "string \<Rightarrow> string" where
  "quote_json s = [CHR 0x22] @ concat (map escape_char s) @ [CHR 0x22]"

fun stringify :: "jsvalue \<Rightarrow> string option" where
  "stringify JUndefined = None"
| "stringify JNull = Some ''null''"
| "stringify (JBool b) = Some (if b then ''true'' else ''false'')"
| "stringify (JNum n) = Some (if n < 0 then ''-'' @ decimal (nat (- n)) else decimal (nat n))"
| "stringify (JStr s) = Some (quote_json s)"
| "stringify (JContainer ArrayKind ps) =
     Some (''['' @ join_with '',''
             (map (\<lambda>kv. case stringify (snd kv) of None \<Rightarrow> ''null'' | Some t \<Rightarrow> t) ps) @ '']'')"
| "stringify (JContainer ObjectKind ps) =
     Some (''{'' @ join_with '',''
             (concat (map (\<lambda>kv. case stringify (snd kv) of
                                    None \<Rightarrow> []
                                  | Some t \<Rightarrow> [quote_json (fst kv) @ '':'' @ t]) ps)) @ ''}'')"

text \<open>
  \<^verbatim>\<open>Merger.threeWayMerge(base, local, remote)\<close>: the two comparisons are on the whole
  documents, and when both sides changed the two-way merge runs without the base.
\<close>

definition threeWayMerge ::
    "ConflictStrategy \<Rightarrow> jsvalue \<Rightarrow> jsvalue \<Rightarrow> jsvalue \<Rightarrow> MergeResult" where
  "threeWayMerge s base local remote =
     (let localChanged = (stringify local \<noteq> stringify base);
          remoteChanged = (stringify remote \<noteq> stringify base)
      in if \<not> localChanged \<and> \<not> remoteChanged then
           \<lparr>result = base, conflicts = [], merged = True\<rparr>
         else if \<not> localChanged then
           \<lparr>result = remote, conflicts = [], merged = True\<rparr>
         else if \<not> remoteChanged then
           \<lparr>result = local, conflicts = [], merged = True\<rparr>
         else
           (case deepMergeWithConflicts s local remote [] [] of
              (res, cs) \<Rightarrow> \<lparr>result = res, conflicts = cs, merged = (length cs = 0)\<rparr>))"

text \<open>What the whole-document comparisons do give: with one side unchanged the other side
  is returned as it is, with no conflict.\<close>

lemma threeWayMerge_one_side:
  "stringify local = stringify base \<Longrightarrow>
     threeWayMerge s base local remote =
       \<lparr>result = (if stringify remote = stringify base then base else remote),
        conflicts = [], merged = True\<rparr>"
  "stringify remote = stringify base \<Longrightarrow> stringify local \<noteq> stringify base \<Longrightarrow>
     threeWayMerge s base local remote = \<lparr>result = local, conflicts = [], merged = True\<rparr>"
  by (simp_all add: threeWayMerge_def)

text \<open>
  C4 fails on the code, at the input of the repository's own test "should merge when both
  changed different fields": base \<^verbatim>\<open>{a: 1, b: 1}\<close>, local \<^verbatim>\<open>{a: 2, b: 1}\<close>, remote
  \<^verbatim>\<open>{a: 1, b: 2}\<close>, strategy \<^verbatim>\<open>'ask'\<close>. Leaf \<^verbatim>\<open>a\<close> changed on the local side only and
  leaf \<^verbatim>\<open>b\<close> on the remote side only, so leaf by leaf the result would be
  \<^verbatim>\<open>{a: 2, b: 2}\<close> with no conflict, which is what the test expects. The code sees that
  both documents changed, merges two-way, reports both leaves as conflicts and takes the
  remote value of each.
\<close>

theorem threeWayMerge_both_changed_different_fields:
  "threeWayMerge Ask
     (JContainer ObjectKind [(''a'', JNum 1), (''b'', JNum 1)])
     (JContainer ObjectKind [(''a'', JNum 2), (''b'', JNum 1)])
     (JContainer ObjectKind [(''a'', JNum 1), (''b'', JNum 2)])
   = \<lparr>result = JContainer ObjectKind [(''a'', JNum 1), (''b'', JNum 2)],
      conflicts = [''a'', ''b''], merged = False\<rparr>"
  by (simp add: threeWayMerge_def quote_json_def decimal.simps
        deepMerge_containers deepMerge_primitive has_key_def object_keys_def get_prop_def)

section \<open>The settings merge (\<^verbatim>\<open>Merger.mergeSettings\<close>)\<close>

text \<open>
  \<^verbatim>\<open>key.toLowerCase()\<close> on the letters A to Z, and \<^verbatim>\<open>s.includes(t)\<close>: \<open>t\<close> occurs in
  \<open>s\<close> as a contiguous run.
\<close>

definition toLowerCase :: "string \<Rightarrow> string" where
  "toLowerCase s =
     map (\<lambda>c. case map_of (zip ''ABCDEFGHIJKLMNOPQRSTUVWXYZ'' ''abcdefghijklmnopqrstuvwxyz'') c of
                 None \<Rightarrow> c | Some l \<Rightarrow> l) s"

fun string_includes :: "string \<Rightarrow> string \<Rightarrow> bool" where
  "string_includes [] t = (t = [])"
| "string_includes (c # cs) t = (take (length t) (c # cs) = t \<or> string_includes cs t)"

text \<open>The list is written in the source with capitals in its first two entries.\<close>

definition sensitiveFields :: "string list" where
  "sensitiveFields = [''apiKey'', ''apiToken'', ''token'', ''secret'', ''password'', ''credential'']"

text \<open>
  The loop \<^verbatim>\<open>for (const key of Object.keys(remote))\<close> and the function around it. The
  library call \<^verbatim>\<open>deepmerge(local, remote, {arrayMerge: ...})\<close> is a parameter; it only
  supplies the field \<open>result\<close>. The model covers two containers: for a primitive
  argument (where \<^verbatim>\<open>Object.keys\<close> or \<^verbatim>\<open>in\<close> may throw) it gives \<open>None\<close>, which stands
  for "not modelled".
\<close>

fun detect_conflicts :: "jsvalue \<Rightarrow> jsvalue \<Rightarrow> string list \<Rightarrow> string list \<Rightarrow> string list" where
  "detect_conflicts local remote [] cs = cs"
| "detect_conflicts local remote (key # keys) cs =
     (if has_key key local \<and> stringify (get_prop local key) \<noteq> stringify (get_prop remote key) then
        (if \<not> list_ex (\<lambda>field. string_includes (toLowerCase key) field) sensitiveFields
         then detect_conflicts local remote keys (cs @ [key])
         else detect_conflicts local remote keys cs)
      else detect_conflicts local remote keys cs)"

definition mergeSettings ::
    "(jsvalue \<Rightarrow> jsvalue \<Rightarrow> jsvalue) \<Rightarrow> jsvalue \<Rightarrow> jsvalue \<Rightarrow> MergeResult option" where
  "mergeSettings deepmerge_remote_arrays local remote =
     (if isPrimitive local \<or> isPrimitive remote then None
      else Some \<lparr>result = deepmerge_remote_arrays local remote,
                 conflicts = detect_conflicts local remote (object_keys remote) [],
                 merged = True\<rparr>)"

text \<open>
  C9 fails on the code for the first entry of the list. The key \<^verbatim>\<open>apiKey\<close>, lowercased,
  contains \<^verbatim>\<open>apikey\<close>; the code looks for the entry \<^verbatim>\<open>apiKey\<close> as written, with its
  capital, inside the lowercased key and never finds it, so the key is reported as a
  conflict when its values differ. (\<open>merged\<close> is true, as the claim says.)
\<close>

theorem mergeSettings_apiKey_reported:
  "mergeSettings dm (JContainer ObjectKind [(''apiKey'', JStr ''local-key'')])
                    (JContainer ObjectKind [(''apiKey'', JStr ''remote-key'')])
   = Some \<lparr>result = dm (JContainer ObjectKind [(''apiKey'', JStr ''local-key'')])
                        (JContainer ObjectKind [(''apiKey'', JStr ''remote-key'')]),
            conflicts = [''apiKey''], merged = True\<rparr>
   \<and> string_includes (toLowerCase ''apiKey'') ''apikey''"
  by (simp add: mergeSettings_def object_keys_def has_key_def get_prop_def quote_json_def
        toLowerCase_def sensitiveFields_def)

text \<open>
  What does hold: \<open>merged\<close> is always true, and a key whose lowercased name contains
  \<^verbatim>\<open>token\<close>, \<^verbatim>\<open>secret\<close>, \<^verbatim>\<open>password\<close> or \<^verbatim>\<open>credential\<close> is never reported.
\<close>

lemma detect_conflicts_filter:
  "detect_conflicts local remote keys cs =
     cs @ filter (\<lambda>k. has_key k local
                      \<and> stringify (get_prop local k) \<noteq> stringify (get_prop remote k)
                      \<and> \<not> list_ex (\<lambda>field. string_includes (toLowerCase k) field) sensitiveFields)
            keys"
  by (induction keys arbitrary: cs) auto

lemma mergeSettings_protected_words:
  "mergeSettings dm local remote = Some r \<Longrightarrow> k \<in> set (conflicts r) \<Longrightarrow>
   merged r \<and> \<not> string_includes (toLowerCase k) ''token'' \<and> \<not> string_includes (toLowerCase k) ''secret''
    \<and> \<not> string_includes (toLowerCase k) ''password'' \<and> \<not> string_includes (toLowerCase k) ''credential''"
  by (auto simp: mergeSettings_def detect_conflicts_filter sensitiveFields_def split: if_splits)

section \<open>Files\<close>

text \<open>
  A directory tree is the list of its regular files, each a path with its content, in the
  order a directory listing gives them; a path occurs once. Git's own directory
  \<^verbatim>\<open>.git\<close> is not part of a tree (the listing of the mirror skips it); what git
  holds is in the record \<open>mirror\<close> below. Directories are implicit, so
  \<^verbatim>\<open>mkdirSync\<close> and \<^verbatim>\<open>ensureDir\<close> change nothing. Reading or copying a file that is
  not there throws; writing always succeeds in this model.
\<close>

type_synonym tree = "(string \<times> string) list"

datatype js_exception = ENOENT string | BackupFailed string

definition existsSync :: "tree \<Rightarrow> string \<Rightarrow> bool" where
  "existsSync t p = (map_of t p \<noteq> None)"

definition readFileSync :: "tree \<Rightarrow> string \<Rightarrow> js_exception + string" where
  "readFileSync t p = (case map_of t p of None \<Rightarrow> Inl (ENOENT p) | Some c \<Rightarrow> Inr c)"

definition writeFileSync :: "tree \<Rightarrow> string \<Rightarrow> string \<Rightarrow> tree" where
  "writeFileSync t p c = AList.update p c t"

definition copyFileSync :: "tree \<Rightarrow> string \<Rightarrow> tree \<Rightarrow> string \<Rightarrow> js_exception + tree" where
  "copyFileSync src_tree src dest_tree dest =
     (case map_of src_tree src of
        None \<Rightarrow> Inl (ENOENT src)
      | Some c \<Rightarrow> Inr (AList.update dest c dest_tree))"

text \<open>
  \<^verbatim>\<open>Merger.mergeFiles(localPath, remotePath, outputPath)\<close> on one tree of absolute
  paths. \<^verbatim>\<open>JSON.parse\<close> (\<open>None\<close> when it throws) and the indented
  \<^verbatim>\<open>JSON.stringify(v, null, 2)\<close> are parameters. The two \<open>None\<close> branches of the
  parser are the \<^verbatim>\<open>catch\<close> block.
\<close>

definition mergeFiles ::
    "(string \<Rightarrow> jsvalue option) \<Rightarrow> (jsvalue \<Rightarrow> string) \<Rightarrow> ConflictStrategy \<Rightarrow> tree
       \<Rightarrow> string \<Rightarrow> string \<Rightarrow> string \<Rightarrow> js_exception + MergeResult \<times> tree" where
  "mergeFiles parse pretty s t localPath remotePath outputPath =
     (if \<not> existsSync t localPath then
        (case copyFileSync t remotePath t outputPath of
           Inl e \<Rightarrow> Inl e
         | Inr t' \<Rightarrow> Inr (\<lparr>result = JNull, conflicts = [], merged = True\<rparr>, t'))
      else if \<not> existsSync t remotePath then
        (case copyFileSync t localPath t outputPath of
           Inl e \<Rightarrow> Inl e
         | Inr t' \<Rightarrow> Inr (\<lparr>result = JNull, conflicts = [], merged = True\<rparr>, t'))
      else
        (case readFileSync t localPath of
           Inl e \<Rightarrow> Inl e
         | Inr localContent \<Rightarrow>
        (case readFileSync t remotePath of
           Inl e \<Rightarrow> Inl e
         | Inr remoteContent \<Rightarrow>
        (case parse localContent of
           None \<Rightarrow> Inr (\<lparr>result = JNull, conflicts = [localPath], merged = False\<rparr>, t)
         | Some localJson \<Rightarrow>
        (case parse remoteContent of
           None \<Rightarrow> Inr (\<lparr>result = JNull, conflicts = [localPath], merged = False\<rparr>, t)
         | Some remoteJson \<Rightarrow>
             (let mergeResult = mergeJson s localJson remoteJson
              in Inr (mergeResult,
                      writeFileSync t outputPath (pretty (result mergeResult)))))))))"

text \<open>
  C8. When both files exist and the content of either does not parse, \<^verbatim>\<open>mergeFiles\<close>
  returns normally (an \<open>Inr\<close>, nothing is thrown) with \<open>result = null\<close>,
  \<open>merged = false\<close> and the local path as the one conflict, and writes nothing.
\<close>

theorem mergeFiles_parse_failure:
  assumes "map_of t localPath = Some localContent"
    and "map_of t remotePath = Some remoteContent"
    and "parse localContent = None \<or> parse remoteContent = None"
  shows "mergeFiles parse pretty s t localPath remotePath outputPath =
           Inr (\<lparr>result = JNull, conflicts = [localPath], merged = False\<rparr>, t)"
  using assms
  by (auto simp: mergeFiles_def existsSync_def readFileSync_def split: option.splits)

theorem mergeFiles_parse_failure_witness:
  "mergeFiles (\<lambda>c. if c = ''{}'' then Some (JContainer ObjectKind []) else None) (\<lambda>v. ''{}'') Ask
     [(''/home/.claude/settings.json'', ''{}''), (''/repo/settings.json'', ''{ not json'')]
     ''/home/.claude/settings.json'' ''/repo/settings.json'' ''/tmp/out.json''
   = Inr (\<lparr>result = JNull, conflicts = [''/home/.claude/settings.json''], merged = False\<rparr>,
          [(''/home/.claude/settings.json'', ''{}''), (''/repo/settings.json'', ''{ not json'')])"
  using mergeFiles_parse_failure [of
      "[(''/home/.claude/settings.json'', ''{}''), (''/repo/settings.json'', ''{ not json'')]"
      "''/home/.claude/settings.json''" "''{}''" "''/repo/settings.json''" "''{ not json''"
      "\<lambda>c. if c = ''{}'' then Some (JContainer ObjectKind []) else None"
      "\<lambda>v. ''{}''" Ask "''/tmp/out.json''"]
  by simp

section \<open>The conflict resolver (\<^verbatim>\<open>src/core/conflict-resolver.ts\<close>)\<close>

text \<open>
  What the resolver takes from outside is a record of functions: the JSON parser and
  printer and the library \<^verbatim>\<open>deepmerge\<close>, the answer of the interactive prompt
  (\<^verbatim>\<open>inquirer\<close>) for a conflict, and the modification times \<^verbatim>\<open>fs.statSync\<close> reports
  for a relative path under the live tree and under the mirror (\<open>None\<close> when
  \<^verbatim>\<open>statSync\<close> throws), in milliseconds.
\<close>

record ConflictInfo =
  path :: string
  localContent :: string
  remoteContent :: string
  baseContent :: "string option"
  resolved :: "bool option"

datatype choice = ChooseLocal | ChooseRemote | ChooseMerge | ChooseSkip

record ResolveResult =
  rr_resolved :: bool
  rr_choice :: "choice option"
  rr_content :: "string option"

record resolver_env =
  json_parse :: "string \<Rightarrow> jsvalue option"
  json_pretty :: "jsvalue \<Rightarrow> string"
  deepmerge :: "jsvalue \<Rightarrow> jsvalue \<Rightarrow> jsvalue"
  prompt :: "ConflictInfo \<Rightarrow> bool \<Rightarrow> choice"
  local_mtime :: "string \<Rightarrow> int option"
  remote_mtime :: "string \<Rightarrow> int option"

text \<open>\<^verbatim>\<open>Merger.canMerge\<close> and \<^verbatim>\<open>Merger.applyMergeChoice\<close>; a \<^verbatim>\<open>switch\<close> that matches
  no case returns \<^verbatim>\<open>undefined\<close>, here \<open>None\<close>.\<close>

definition endsWith :: "string \<Rightarrow> string \<Rightarrow> bool" where
  "endsWith s t = (length t \<le> length s \<and> drop (length s - length t) s = t)"

definition canMerge :: "string \<Rightarrow> bool" where
  "canMerge filePath = list_ex (\<lambda>ext. endsWith filePath ext) [''.json'']"

fun applyMergeChoice ::
    "'a resolver_env_scheme \<Rightarrow> string \<Rightarrow> string \<Rightarrow> choice \<Rightarrow> string option" where
  "applyMergeChoice e lc rc ChooseLocal = Some lc"
| "applyMergeChoice e lc rc ChooseRemote = Some rc"
| "applyMergeChoice e lc rc ChooseMerge =
     (case json_parse e lc of
        None \<Rightarrow> Some rc
      | Some localJson \<Rightarrow>
          (case json_parse e rc of
             None \<Rightarrow> Some rc
           | Some remoteJson \<Rightarrow> Some (json_pretty e (deepmerge e localJson remoteJson))))"
| "applyMergeChoice e lc rc ChooseSkip = None"

text \<open>\<^verbatim>\<open>ConflictResolver.askUser\<close>, \<^verbatim>\<open>resolveByNewest\<close>, \<^verbatim>\<open>resolveConflict\<close> (named
  \<open>resolveConflict_file\<close> here, apart from the merger's function of the same name),
  \<^verbatim>\<open>resolveConflicts\<close> and \<^verbatim>\<open>applyResolutions\<close>.\<close>

definition askUser :: "'a resolver_env_scheme \<Rightarrow> ConflictInfo \<Rightarrow> bool \<Rightarrow> ResolveResult" where
  "askUser e conflict can_merge =
     (case prompt e conflict can_merge of
        ChooseLocal \<Rightarrow>
          \<lparr>rr_resolved = True, rr_choice = Some ChooseLocal,
           rr_content = Some (localContent conflict)\<rparr>
      | ChooseRemote \<Rightarrow>
          \<lparr>rr_resolved = True, rr_choice = Some ChooseRemote,
           rr_content = Some (remoteContent conflict)\<rparr>
      | ChooseMerge \<Rightarrow>
          \<lparr>rr_resolved = True, rr_choice = Some ChooseMerge,
           rr_content = applyMergeChoice e (localContent conflict) (remoteContent conflict)
                          ChooseMerge\<rparr>
      | ChooseSkip \<Rightarrow>
          \<lparr>rr_resolved = False, rr_choice = Some ChooseSkip, rr_content = None\<rparr>)"

definition resolveByNewest :: "'a resolver_env_scheme \<Rightarrow> ConflictInfo \<Rightarrow> ResolveResult" where
  "resolveByNewest e conflict =
     (let localMtime = local_mtime e (path conflict);
          remoteMtime = remote_mtime e (path conflict)
      in case (localMtime, remoteMtime) of
           (Some lm, Some rm) \<Rightarrow>
             (if lm > rm
              then \<lparr>rr_resolved = True, rr_choice = Some ChooseLocal,
                    rr_content = Some (localContent conflict)\<rparr>
              else \<lparr>rr_resolved = True, rr_choice = Some ChooseRemote,
                    rr_content = Some (remoteContent conflict)\<rparr>)
         | (Some lm, None) \<Rightarrow>
             \<lparr>rr_resolved = True, rr_choice = Some ChooseLocal,
              rr_content = Some (localContent conflict)\<rparr>
         | (None, Some rm) \<Rightarrow>
             \<lparr>rr_resolved = True, rr_choice = Some ChooseRemote,
              rr_content = Some (remoteContent conflict)\<rparr>
         | (None, None) \<Rightarrow>
             \<lparr>rr_resolved = True, rr_choice = Some ChooseRemote,
              rr_content = Some (remoteContent conflict)\<rparr>)"

fun resolveConflict_file ::
    "ConflictStrategy \<Rightarrow> 'a resolver_env_scheme \<Rightarrow> ConflictInfo \<Rightarrow> ResolveResult" where
  "resolveConflict_file Local e conflict =
     \<lparr>rr_resolved = True, rr_choice = Some ChooseLocal, rr_content = Some (localContent conflict)\<rparr>"
| "resolveConflict_file Remote e conflict =
     \<lparr>rr_resolved = True, rr_choice = Some ChooseRemote, rr_content = Some (remoteContent conflict)\<rparr>"
| "resolveConflict_file Newest e conflict = resolveByNewest e conflict"
| "resolveConflict_file Ask e conflict = askUser e conflict (canMerge (path conflict))"

fun resolveConflicts ::
    "ConflictStrategy \<Rightarrow> 'a resolver_env_scheme \<Rightarrow> ConflictInfo list \<Rightarrow> ConflictInfo list" where
  "resolveConflicts s e [] = []"
| "resolveConflicts s e (conflict # rest) =
     (let r = resolveConflict_file s e conflict
      in (if rr_resolved r \<and> rr_content r \<noteq> None then conflict\<lparr>resolved := Some True\<rparr>
          else if rr_choice r = Some ChooseSkip then conflict\<lparr>resolved := Some False\<rparr>
          else conflict\<lparr>resolved := Some True\<rparr>)
         # resolveConflicts s e rest)"

fun applyResolutions :: "ConflictInfo list \<Rightarrow> tree \<Rightarrow> tree" where
  "applyResolutions [] target = target"
| "applyResolutions (conflict # rest) target =
     (if resolved conflict = Some True
      then applyResolutions rest (writeFileSync target (path conflict) (remoteContent conflict))
      else applyResolutions rest target)"

section \<open>The sync engine (\<^verbatim>\<open>src/core/sync-engine.ts\<close>)\<close>

text \<open>
  The mirror is the working tree \<^verbatim>\<open>syncRepoDir\<close> with git's index, the tree of the last
  commit and the number of commits made. Git is modelled by what the engine relies on:
  \<^verbatim>\<open>git add\<close> copies the working tree into the index, \<^verbatim>\<open>status().files\<close> is non-empty
  when index and last commit or working tree and index differ, \<^verbatim>\<open>git commit\<close> records
  the index when it differs from the last commit. Ignore rules are left out. Each call
  of \<^verbatim>\<open>GitManager\<close> can fail, which the wrapper turns into \<^verbatim>\<open>false\<close> or \<^verbatim>\<open>null\<close>: the
  flags of the environment say which calls work in a run. \<^verbatim>\<open>git pull\<close> may change the
  mirror in any way. \<^verbatim>\<open>createBackup\<close> copies into the backup directory, outside both
  trees; the model keeps only whether it throws. The scanner gives the files to sync as
  paths relative to the live tree.
\<close>

record mirror =
  syncRepoDir :: tree
  index :: tree
  head :: tree
  commit_count :: nat

record state =
  claudeHome :: tree
  repo :: mirror

text \<open>\<^verbatim>\<open>SyncResult\<close> and \<^verbatim>\<open>ConflictInfo\<close> as declared in the repository's types; an optional
  field that is absent is \<open>None\<close>. The field \<^verbatim>\<open>conflicts\<close> is \<open>sr_conflicts\<close> here.\<close>

record SyncResult =
  success :: bool
  pushed :: "nat option"
  pulled :: "nat option"
  sr_conflicts :: "ConflictInfo list option"
  errors :: "string list option"
  message :: string

text \<open>
  The environment of one run: \<open>backup_error\<close> is what \<^verbatim>\<open>createBackup\<close> throws, if it
  does; \<open>error_text\<close> is \<^verbatim>\<open>String(err)\<close>; \<open>scan\<close> is \<^verbatim>\<open>scanner.scan().files\<close> for a live
  tree; \<open>git_pull\<close> is \<^verbatim>\<open>GitManager.pull\<close>, with the mirror it leaves.
\<close>

record sync_env = resolver_env +
  backup_error :: "js_exception option"
  error_text :: "js_exception \<Rightarrow> string"
  scan :: "tree \<Rightarrow> string list"
  git_pull :: "mirror \<Rightarrow> bool \<times> mirror"
  addAll_ok :: bool
  status_ok :: bool
  commit_ok :: bool
  push_ok :: bool

text \<open>The result literal of every failing return: \<^verbatim>\<open>{success: false, errors, message}\<close>.\<close>

definition failed :: "string list \<Rightarrow> string \<Rightarrow> SyncResult" where
  "failed errs msg =
     \<lparr>success = False, pushed = None, pulled = None, sr_conflicts = None,
      errors = Some errs, message = msg\<rparr>"

text \<open>\<^verbatim>\<open>getRepoFiles\<close>, \<^verbatim>\<open>checkForConflicts\<close> and \<^verbatim>\<open>applyFilesToClaude\<close>; the last one
  skips a file that is missing in the mirror.\<close>

definition getRepoFiles :: "tree \<Rightarrow> string list" where
  "getRepoFiles t = map fst t"

fun checkForConflicts :: "tree \<Rightarrow> tree \<Rightarrow> string list \<Rightarrow> ConflictInfo list" where
  "checkForConflicts home mirror_dir [] = []"
| "checkForConflicts home mirror_dir (file # files) =
     (case (map_of home file, map_of mirror_dir file) of
        (Some lc, Some rc) \<Rightarrow>
          (if lc \<noteq> rc
           then \<lparr>path = file, localContent = lc, remoteContent = rc,
                 baseContent = None, resolved = None\<rparr> # checkForConflicts home mirror_dir files
           else checkForConflicts home mirror_dir files)
      | _ \<Rightarrow> checkForConflicts home mirror_dir files)"

fun applyFilesToClaude :: "tree \<Rightarrow> string list \<Rightarrow> tree \<Rightarrow> tree" where
  "applyFilesToClaude mirror_dir [] home = home"
| "applyFilesToClaude mirror_dir (file # files) home =
     (case copyFileSync mirror_dir file home file of
        Inl e \<Rightarrow> applyFilesToClaude mirror_dir files home
      | Inr home' \<Rightarrow> applyFilesToClaude mirror_dir files home')"

text \<open>
  \<^verbatim>\<open>SyncEngine.pull\<close>. \<open>finish_pull\<close> is its last part, from "Apply files to Claude
  directory" on; the conflicts it returns are the records as found, before resolution.
\<close>

definition finish_pull :: "mirror \<Rightarrow> string list \<Rightarrow> ConflictInfo list \<Rightarrow> tree \<Rightarrow> SyncResult \<times> state" where
  "finish_pull m repoFiles cs home =
     (\<lparr>success = True, pushed = None, pulled = Some (length repoFiles),
       sr_conflicts = (if length cs > 0 then Some cs else None),
       errors = None,
       message = ''Successfully pulled '' @ decimal (length repoFiles) @ '' files''\<rparr>,
      \<lparr>claudeHome = applyFilesToClaude (syncRepoDir m) repoFiles home, repo = m\<rparr>)"

definition pull :: "ConflictStrategy \<Rightarrow> 'a sync_env_scheme \<Rightarrow> state \<Rightarrow> SyncResult \<times> state" where
  "pull s e st =
     (case backup_error e of
        Some err \<Rightarrow> (failed [error_text e err] ''Pull operation failed'', st)
      | None \<Rightarrow>
     (case git_pull e (repo st) of (ok, m) \<Rightarrow>
        if \<not> ok then
          (failed [''Failed to pull from remote''] ''Failed to pull from remote'',
           \<lparr>claudeHome = claudeHome st, repo = m\<rparr>)
        else
          (let repoFiles = getRepoFiles (syncRepoDir m);
               cs = checkForConflicts (claudeHome st) (syncRepoDir m) repoFiles
           in if length cs > 0 then
                (let rs = resolveConflicts s e cs;
                     home' = applyResolutions rs (claudeHome st);
                     unresolved = length (filter (\<lambda>c. resolved c \<noteq> Some True) rs)
                 in if unresolved > 0 then
                      (failed [decimal unresolved @ '' conflicts remain unresolved'']
                         ''Pull completed with unresolved conflicts'',
                       \<lparr>claudeHome = home', repo = m\<rparr>)
                    else finish_pull m repoFiles cs home')
              else finish_pull m repoFiles cs (claudeHome st))))"







section \<open>A small installation, for the concrete checks\<close>

definition example_mirror :: tree where
  "example_mirror = [(''settings.json'', ''R''), (''notes.txt'', ''r2''), (''new.md'', ''n'')]"

definition example_env ::
    "(ConflictInfo \<Rightarrow> bool \<Rightarrow> choice) \<Rightarrow> int option \<Rightarrow> int option \<Rightarrow> sync_env" where
  "example_env answer lm rm =
     \<lparr>json_parse = (\<lambda>c. None), json_pretty = (\<lambda>v. []), deepmerge = (\<lambda>a b. b),
      prompt = answer, local_mtime = (\<lambda>p. lm), remote_mtime = (\<lambda>p. rm),
      backup_error = None, error_text = (\<lambda>err. ''Error''), scan = map fst,
      git_pull = (\<lambda>m. (True, m\<lparr>syncRepoDir := example_mirror\<rparr>)),
      addAll_ok = True, status_ok = True, commit_ok = True, push_ok = True\<rparr>"

definition skip_notes :: "ConflictInfo \<Rightarrow> bool \<Rightarrow> choice" where
  "skip_notes c can_merge = (if path c = ''notes.txt'' then ChooseSkip else ChooseRemote)"

definition example_state :: state where
  "example_state =
     \<lparr>claudeHome = [(''settings.json'', ''L''), (''notes.txt'', ''l2'')],
      repo = \<lparr>syncRepoDir = [], index = [], head = [], commit_count = 0\<rparr>\<rparr>"

definition example_conflict :: ConflictInfo where
  "example_conflict =
     \<lparr>path = ''settings.json'', localContent = ''L'', remoteContent = ''R'',
      baseContent = None, resolved = None\<rparr>"

lemmas example_defs = example_mirror_def example_env_def skip_notes_def example_state_def
  example_conflict_def

section \<open>Resolution by modification time\<close>

text \<open>
  C6. Under the strategy \<^verbatim>\<open>'newest'\<close> every conflict is resolved. With both
  modification times available the side with the later one is selected, with exactly one
  available that side, with none the remote side; the outcome carries the selected side's
  content. (With equal times the code selects remote.)
\<close>

theorem resolveByNewest_selects:
  "rr_resolved (resolveConflict_file Newest e c)
   \<and> resolveConflicts Newest e [c] = [c\<lparr>resolved := Some True\<rparr>]
   \<and> (\<forall>lm rm. local_mtime e (path c) = Some lm \<and> remote_mtime e (path c) = Some rm \<and> lm > rm \<longrightarrow>
         resolveConflict_file Newest e c =
           \<lparr>rr_resolved = True, rr_choice = Some ChooseLocal, rr_content = Some (localContent c)\<rparr>)
   \<and> (\<forall>lm rm. local_mtime e (path c) = Some lm \<and> remote_mtime e (path c) = Some rm \<and> rm > lm \<longrightarrow>
         resolveConflict_file Newest e c =
           \<lparr>rr_resolved = True, rr_choice = Some ChooseRemote, rr_content = Some (remoteContent c)\<rparr>)
   \<and> (local_mtime e (path c) \<noteq> None \<and> remote_mtime e (path c) = None \<longrightarrow>
         resolveConflict_file Newest e c =
           \<lparr>rr_resolved = True, rr_choice = Some ChooseLocal, rr_content = Some (localContent c)\<rparr>)
   \<and> (local_mtime e (path c) = None \<and> remote_mtime e (path c) \<noteq> None \<longrightarrow>
         resolveConflict_file Newest e c =
           \<lparr>rr_resolved = True, rr_choice = Some ChooseRemote, rr_content = Some (remoteContent c)\<rparr>)
   \<and> (local_mtime e (path c) = None \<and> remote_mtime e (path c) = None \<longrightarrow>
         resolveConflict_file Newest e c =
           \<lparr>rr_resolved = True, rr_choice = Some ChooseRemote, rr_content = Some (remoteContent c)\<rparr>)"
  by (auto simp: resolveByNewest_def Let_def split: option.splits)

theorem resolveByNewest_selects_witness:
  "resolveConflict_file Newest (example_env skip_notes (Some 200) (Some 100)) example_conflict
     = \<lparr>rr_resolved = True, rr_choice = Some ChooseLocal, rr_content = Some ''L''\<rparr>
   \<and> resolveConflict_file Newest (example_env skip_notes (Some 100) (Some 200)) example_conflict
     = \<lparr>rr_resolved = True, rr_choice = Some ChooseRemote, rr_content = Some ''R''\<rparr>
   \<and> resolveConflict_file Newest (example_env skip_notes (Some 100) None) example_conflict
     = \<lparr>rr_resolved = True, rr_choice = Some ChooseLocal, rr_content = Some ''L''\<rparr>
   \<and> resolveConflict_file Newest (example_env skip_notes None (Some 100)) example_conflict
     = \<lparr>rr_resolved = True, rr_choice = Some ChooseRemote, rr_content = Some ''R''\<rparr>
   \<and> resolveConflict_file Newest (example_env skip_notes None None) example_conflict
     = \<lparr>rr_resolved = True, rr_choice = Some ChooseRemote, rr_content = Some ''R''\<rparr>"
  using resolveByNewest_selects [of "example_env skip_notes (Some 200) (Some 100)" example_conflict]
    resolveByNewest_selects [of "example_env skip_notes (Some 100) (Some 200)" example_conflict]
    resolveByNewest_selects [of "example_env skip_notes (Some 100) None" example_conflict]
    resolveByNewest_selects [of "example_env skip_notes None (Some 100)" example_conflict]
    resolveByNewest_selects [of "example_env skip_notes None None" example_conflict]
  by (simp add: example_env_def example_conflict_def)

section \<open>Pull: what is written for a resolved conflict\<close>

text \<open>
  C1 fails on the code. With the strategy \<^verbatim>\<open>'local'\<close>, a live file \<^verbatim>\<open>settings.json\<close>
  holding \<^verbatim>\<open>L\<close> and a mirror file holding \<^verbatim>\<open>R\<close>: the resolution chooses \<^verbatim>\<open>local\<close> with
  content \<^verbatim>\<open>L\<close>; \<^verbatim>\<open>resolveConflicts\<close> keeps only the flag \<open>resolved = true\<close> and drops
  the content; \<^verbatim>\<open>applyResolutions\<close> writes \<^verbatim>\<open>conflict.remoteContent\<close>, so the live file
  ends holding \<^verbatim>\<open>R\<close>, also at the end of the whole pull.
\<close>

theorem applyResolutions_writes_remote:
  "resolveConflict_file Local (example_env skip_notes None None) example_conflict
     = \<lparr>rr_resolved = True, rr_choice = Some ChooseLocal, rr_content = Some ''L''\<rparr>
   \<and> resolveConflicts Local (example_env skip_notes None None) [example_conflict]
     = [example_conflict\<lparr>resolved := Some True\<rparr>]
   \<and> applyResolutions (resolveConflicts Local (example_env skip_notes None None) [example_conflict])
        [(''settings.json'', ''L'')]
     = [(''settings.json'', ''R'')]
   \<and> map_of (claudeHome (snd (pull Local (example_env skip_notes None None)
         \<lparr>claudeHome = [(''settings.json'', ''L'')],
          repo = \<lparr>syncRepoDir = [], index = [], head = [], commit_count = 0\<rparr>\<rparr>)))
        ''settings.json'' = Some ''R''"
  by (simp add: example_defs writeFileSync_def pull_def getRepoFiles_def finish_pull_def
        copyFileSync_def Let_def)

section \<open>Pull with one skipped conflict\<close>

lemma resolveConflicts_Ask:
  "resolveConflicts Ask e cs =
     map (\<lambda>c. c\<lparr>resolved := Some (prompt e c (canMerge (path c)) \<noteq> ChooseSkip)\<rparr>) cs"
  by (induction cs) (auto simp: askUser_def Let_def split: choice.splits option.splits)

lemma checkForConflicts_paths:
  "map path (checkForConflicts home dir files) =
     filter (\<lambda>f. \<exists>lc rc. map_of home f = Some lc \<and> map_of dir f = Some rc \<and> lc \<noteq> rc) files"
  by (induction files) (auto split: option.splits)

lemma checkForConflicts_distinct:
  "distinct files \<Longrightarrow> distinct (map path (checkForConflicts home dir files))"
  by (simp add: checkForConflicts_paths)

lemma checkForConflicts_contents:
  "c \<in> set (checkForConflicts home dir files) \<Longrightarrow>
     map_of home (path c) = Some (localContent c) \<and> map_of dir (path c) = Some (remoteContent c)"
  by (induction files) (auto split: option.splits if_splits)

lemma applyResolutions_other:
  "\<forall>c \<in> set rs. resolved c = Some True \<longrightarrow> path c \<noteq> p \<Longrightarrow>
   map_of (applyResolutions rs t) p = map_of t p"
  by (induction rs arbitrary: t) (auto simp: writeFileSync_def update_conv')

lemma applyResolutions_written:
  "distinct (map path rs) \<Longrightarrow> c \<in> set rs \<Longrightarrow> resolved c = Some True \<Longrightarrow>
   map_of (applyResolutions rs t) (path c) = Some (remoteContent c)"
proof (induction rs arbitrary: t)
  case Nil
  then show ?case by simp
next
  case (Cons r rs)
  show ?case
  proof (cases "c = r")
    case True
    have "\<forall>x \<in> set rs. resolved x = Some True \<longrightarrow> path x \<noteq> path c"
      using Cons.prems(1) True by (auto simp: image_iff)
    then have "map_of (applyResolutions rs (writeFileSync t (path c) (remoteContent c))) (path c)
             = map_of (writeFileSync t (path c) (remoteContent c)) (path c)"
      by (rule applyResolutions_other)
    then show ?thesis using True Cons.prems(3) by (simp add: writeFileSync_def update_conv')
  next
    case False
    with Cons.prems have "c \<in> set rs" "distinct (map path rs)" by auto
    then show ?thesis using Cons.IH Cons.prems(3) by simp
  qed
qed


lemma pull_unresolved_result:
  assumes be: "backup_error e = None"
    and gp: "git_pull e (repo st) = (True, m)"
    and cs: "cs = checkForConflicts (claudeHome st) (syncRepoDir m) (getRepoFiles (syncRepoDir m))"
    and one: "length (filter (\<lambda>c. prompt e c (canMerge (path c)) = ChooseSkip) cs) = 1"
  shows "pull Ask e st =
           (failed [''1 conflicts remain unresolved''] ''Pull completed with unresolved conflicts'',
            \<lparr>claudeHome = applyResolutions (resolveConflicts Ask e cs) (claudeHome st), repo = m\<rparr>)"
proof -
  have unres: "length (filter (\<lambda>c. resolved c \<noteq> Some True) (resolveConflicts Ask e cs)) = 1"
    using one by (simp add: resolveConflicts_Ask filter_map o_def)
  from one have "cs \<noteq> []" by auto
  then have pos: "length cs > 0" by simp
  have d1: "decimal (Suc 0) = ''1''" by (simp add: decimal.simps)
  have ne: "filter (\<lambda>c. resolved c \<noteq> Some True) (resolveConflicts Ask e cs) \<noteq> []"
    using unres by auto
  show ?thesis
    using be gp pos unres ne cs[symmetric]
    by (simp add: pull_def Let_def d1)
qed

text \<open>
  C2, as the code has it. In a pull under \<^verbatim>\<open>'ask'\<close> whose backup and transport pull
  succeed and in which exactly one conflict is answered \<^verbatim>\<open>skip\<close>: the result has
  \<open>success = false\<close>, the one error \<^verbatim>\<open>1 conflicts remain unresolved\<close> and no conflicts
  sequence; every conflict answered \<^verbatim>\<open>remote\<close> has its remote content in the live tree;
  the skipped path still holds its local content; and every path that is not in conflict
  is as it was, since the pull returns before it applies the mirror's files.
\<close>

theorem pull_one_skipped:
  assumes be: "backup_error e = None"
    and gp: "git_pull e (repo st) = (True, m)"
    and dist: "distinct (map fst (syncRepoDir m))"
    and cs: "cs = checkForConflicts (claudeHome st) (syncRepoDir m) (getRepoFiles (syncRepoDir m))"
    and one: "length (filter (\<lambda>c. prompt e c (canMerge (path c)) = ChooseSkip) cs) = 1"
  shows "fst (pull Ask e st) =
           \<lparr>success = False, pushed = None, pulled = None, sr_conflicts = None,
            errors = Some [''1 conflicts remain unresolved''],
            message = ''Pull completed with unresolved conflicts''\<rparr>
       \<and> (\<forall>c \<in> set cs. prompt e c (canMerge (path c)) = ChooseRemote \<longrightarrow>
             map_of (claudeHome (snd (pull Ask e st))) (path c) = Some (remoteContent c))
       \<and> (\<forall>c \<in> set cs. prompt e c (canMerge (path c)) = ChooseSkip \<longrightarrow>
             map_of (claudeHome (snd (pull Ask e st))) (path c) = Some (localContent c)
             \<and> map_of (claudeHome st) (path c) = Some (localContent c))
       \<and> (\<forall>p. p \<notin> path ` set cs \<longrightarrow>
             map_of (claudeHome (snd (pull Ask e st))) p = map_of (claudeHome st) p)"
proof -
  let ?rs = "resolveConflicts Ask e cs"
  let ?f = "\<lambda>c. c\<lparr>resolved := Some (prompt e c (canMerge (path c)) \<noteq> ChooseSkip)\<rparr>"
  have rs: "?rs = map ?f cs" by (rule resolveConflicts_Ask)
  have p: "pull Ask e st =
             (failed [''1 conflicts remain unresolved''] ''Pull completed with unresolved conflicts'',
              \<lparr>claudeHome = applyResolutions ?rs (claudeHome st), repo = m\<rparr>)"
    by (rule pull_unresolved_result[OF be gp cs one])
  have home: "claudeHome (snd (pull Ask e st)) = applyResolutions ?rs (claudeHome st)"
    by (simp add: p)
  have dcs: "distinct (map path cs)"
    unfolding cs using dist by (simp add: checkForConflicts_distinct getRepoFiles_def)
  have drs: "distinct (map path ?rs)"
    using dcs by (simp add: rs o_def)
  have remote: "map_of (applyResolutions ?rs (claudeHome st)) (path c) = Some (remoteContent c)"
    if c: "c \<in> set cs" and a: "prompt e c (canMerge (path c)) = ChooseRemote" for c
  proof -
    have "?f c \<in> set ?rs" using c by (simp add: rs)
    moreover have "resolved (?f c) = Some True" using a by simp
    ultimately have "map_of (applyResolutions ?rs (claudeHome st)) (path (?f c))
                   = Some (remoteContent (?f c))"
      using drs by (rule applyResolutions_written[rotated])
    then show ?thesis by simp
  qed
  have skipped: "map_of (applyResolutions ?rs (claudeHome st)) (path c) = Some (localContent c)
                 \<and> map_of (claudeHome st) (path c) = Some (localContent c)"
    if c: "c \<in> set cs" and a: "prompt e c (canMerge (path c)) = ChooseSkip" for c
  proof -
    have "\<forall>x \<in> set ?rs. resolved x = Some True \<longrightarrow> path x \<noteq> path c"
    proof (intro ballI impI)
      fix x assume x: "x \<in> set ?rs" and r: "resolved x = Some True"
      from x obtain y where y: "y \<in> set cs" "x = ?f y" by (auto simp: rs)
      from r y have ny: "prompt e y (canMerge (path y)) \<noteq> ChooseSkip" by simp
      show "path x \<noteq> path c"
      proof
        assume "path x = path c"
        then have "path y = path c" using y by simp
        with dcs y c have "y = c" by (meson distinct_map inj_onD)
        with ny a show False by simp
      qed
    qed
    then have "map_of (applyResolutions ?rs (claudeHome st)) (path c) = map_of (claudeHome st) (path c)"
      by (rule applyResolutions_other)
    moreover have "map_of (claudeHome st) (path c) = Some (localContent c)"
      using c unfolding cs by (simp add: checkForConflicts_contents)
    ultimately show ?thesis by simp
  qed
  have other: "map_of (applyResolutions ?rs (claudeHome st)) p = map_of (claudeHome st) p"
    if "p \<notin> path ` set cs" for p
  proof -
    have "\<forall>x \<in> set ?rs. resolved x = Some True \<longrightarrow> path x \<noteq> p"
      using that by (auto simp: rs)
    then show ?thesis by (rule applyResolutions_other)
  qed
  show ?thesis
    unfolding home using remote skipped other by (simp add: p failed_def)
qed

text \<open>
  C2 as stated fails: in the small installation the prompt skips \<^verbatim>\<open>notes.txt\<close> and
  resolves \<^verbatim>\<open>settings.json\<close>, and the pull reports \<open>success = false\<close> with no
  conflicts sequence.
\<close>

theorem pull_one_skipped_fails:
  "map resolved (resolveConflicts Ask (example_env skip_notes None None)
      (checkForConflicts (claudeHome example_state) example_mirror (getRepoFiles example_mirror)))
     = [Some True, Some False]
   \<and> success (fst (pull Ask (example_env skip_notes None None) example_state)) = False
   \<and> sr_conflicts (fst (pull Ask (example_env skip_notes None None) example_state)) = None"
  by (simp add: example_defs pull_def getRepoFiles_def askUser_def canMerge_def endsWith_def
        Let_def failed_def)

theorem pull_one_skipped_witness:
  "fst (pull Ask (example_env skip_notes None None) example_state) =
     \<lparr>success = False, pushed = None, pulled = None, sr_conflicts = None,
      errors = Some [''1 conflicts remain unresolved''],
      message = ''Pull completed with unresolved conflicts''\<rparr>
   \<and> map_of (claudeHome (snd (pull Ask (example_env skip_notes None None) example_state)))
        ''settings.json'' = Some ''R''
   \<and> map_of (claudeHome (snd (pull Ask (example_env skip_notes None None) example_state)))
        ''notes.txt'' = Some ''l2''
   \<and> map_of (claudeHome (snd (pull Ask (example_env skip_notes None None) example_state)))
        ''new.md'' = None"
proof -
  let ?e = "example_env skip_notes None None"
  let ?m = "\<lparr>syncRepoDir = example_mirror, index = [], head = [], commit_count = 0\<rparr>"
  let ?cs = "[example_conflict,
              \<lparr>path = ''notes.txt'', localContent = ''l2'', remoteContent = ''r2'',
               baseContent = None, resolved = None\<rparr>]"
  have h1: "backup_error ?e = None" by (simp add: example_env_def)
  have h2: "git_pull ?e (repo example_state) = (True, ?m)"
    by (simp add: example_env_def example_state_def)
  have h3: "distinct (map fst (syncRepoDir ?m))" by (simp add: example_mirror_def)
  have h4: "?cs = checkForConflicts (claudeHome example_state) (syncRepoDir ?m)
                    (getRepoFiles (syncRepoDir ?m))"
    by (simp add: example_defs getRepoFiles_def)
  have h5: "length (filter (\<lambda>c. prompt ?e c (canMerge (path c)) = ChooseSkip) ?cs) = 1"
    by (simp add: example_defs)
  from pull_one_skipped [OF h1 h2 h3 h4 h5]
  show ?thesis
    by (simp add: example_conflict_def example_env_def skip_notes_def example_state_def)
qed

section \<open>Push twice\<close>











end
